theory Spec2Isabelle
  imports Complex_Main "HOL-Library.Multiset" "HOL-Library.Char_ord" "HOL-Library.List_Lexorder" "HOL-Library.Sublist"
begin

section \<open>Strings\<close>

text \<open>
  Python strings are modelled as \<^typ>\<open>string\<close>, the UTF-8 bytes of the text. For ASCII text a
  byte is a code point, so \<open>len\<close>, indexing and slicing agree with Python there. The
  placeholder for undisclosed values is the three-character word U+975E U+516C U+958B, written
  here by its nine UTF-8 bytes.
\<close>

definition SENTINEL :: string where
  "SENTINEL = [CHR 0xE9, CHR 0x9D, CHR 0x9E, CHR 0xE5, CHR 0x85, CHR 0xAC, CHR 0xE9, CHR 0x96, CHR 0x8B]"

text \<open>
  \<open>str.upper\<close> and \<open>str.lower\<close> on the ASCII letters; every other byte is left as it is
  (Python also maps cased letters outside ASCII).
\<close>

definition upper_char :: "char \<Rightarrow> char" where
  "upper_char c =
     (case map_of (zip ''abcdefghijklmnopqrstuvwxyz'' ''ABCDEFGHIJKLMNOPQRSTUVWXYZ'') c of
        Some d \<Rightarrow> d | None \<Rightarrow> c)"

definition lower_char :: "char \<Rightarrow> char" where
  "lower_char c =
     (case map_of (zip ''ABCDEFGHIJKLMNOPQRSTUVWXYZ'' ''abcdefghijklmnopqrstuvwxyz'') c of
        Some d \<Rightarrow> d | None \<Rightarrow> c)"

definition upper :: "string \<Rightarrow> string" where
  "upper s = map upper_char s"

definition lower :: "string \<Rightarrow> string" where
  "lower s = map lower_char s"

text \<open>\<open>a in b\<close> on strings: \<open>a\<close> occurs in \<open>b\<close> as a contiguous piece.\<close>

fun contains :: "string \<Rightarrow> string \<Rightarrow> bool" where
  "contains [] a = (a = [])"
| "contains (c # cs) a = (prefix a (c # cs) \<or> contains cs a)"

text \<open>\<open>s.replace(' ', '')\<close>: every space character is removed.\<close>

definition remove_spaces :: "string \<Rightarrow> string" where
  "remove_spaces s = filter (\<lambda>c. c \<noteq> CHR '' '') s"

section \<open>Raw-data stage (cleaning\_rawdata.py)\<close>

subsection \<open>Errors and library functions\<close>

text \<open>
  What the adapters can raise: \<open>ValueError\<close> (tuple unpacking, \<open>int\<close>, \<open>float\<close>, a negative
  repeat count), \<open>IndexError\<close> (\<open>date[2]\<close>) and dateutil's \<open>ParserError\<close>.
\<close>

datatype error = ValueError | IndexError | ParserError

text \<open>A Python float: \<open>astype(float)\<close> also yields \<open>nan\<close> and the infinities.\<close>

datatype pyfloat = Finite real | PosInf | NegInf | NotANumber

fun float_gt :: "pyfloat \<Rightarrow> real \<Rightarrow> bool" where
  "float_gt (Finite x) b = (x > b)"
| "float_gt PosInf b = True"
| "float_gt NegInf b = False"
| "float_gt NotANumber b = False"

text \<open>
  The library functions and master tables the adapters call are parameters, one record for a
  run: Python's \<open>int\<close> and numpy's conversion to float (\<^term>\<open>None\<close> where they raise
  \<open>ValueError\<close>), dateutil's \<open>parser.parse(s).month\<close> (\<^term>\<open>None\<close> where it raises),
  pycountry's lookup of a country name by its two-letter code, and the two mapping tables of
  \<open>params.py\<close>, which are read from spreadsheets. The nested function
  \<open>pre_cleaning_example_publisher_7\<close>, which rebuilds report titles from tracking URLs with
  \<open>unquote\<close> and regular expressions, is a parameter as well: it takes and returns the frame
  of publisher 7 and may raise.
\<close>

record sel7 =
  s7_User_Name :: string
  s7_Email :: string
  s7_Downloaded_Report :: string
  s7_Conversion_Date :: string
  s7_Conversion_Page :: string

record env =
  py_int :: "string \<Rightarrow> int option"
  parse_month :: "string \<Rightarrow> int option"
  to_float :: "string \<Rightarrow> pyfloat option"
  alpha_2_name :: "string \<Rightarrow> string option"
  CUSTOM_COUNTRY_MAPPING :: "string \<Rightarrow> string option"
  CUSTOM_CITY_MAPPING :: "string \<Rightarrow> string option"
  pre_cleaning_example_publisher_7 :: "sel7 list \<Rightarrow> error + sel7 list"

subsection \<open>String helpers\<close>

text \<open>
  \<open>s.split(sep)\<close> for a separator that is not empty (the adapters pass \<open>' '\<close>, \<open>'/'\<close>,
  \<open>'-'\<close> and \<open>', '\<close>): the pieces between the occurrences of \<open>sep\<close>, found from the left.
\<close>

fun split_from :: "string \<Rightarrow> string \<Rightarrow> string \<Rightarrow> string list" where
  "split_from sep acc [] = [rev acc]"
| "split_from sep acc (c # cs) =
     (if prefix sep (c # cs) then rev acc # split_from sep [] (drop (length sep - 1) cs)
      else split_from sep (c # acc) cs)"

definition split :: "string \<Rightarrow> string \<Rightarrow> string list" where
  "split sep s = split_from sep [] s"

text \<open>\<open>s.replace('/', '-')\<close>.\<close>

definition replace_slash :: "string \<Rightarrow> string" where
  "replace_slash s = map (\<lambda>c. if c = CHR ''/'' then CHR ''-'' else c) s"

text \<open>\<open>s.strip()\<close>, for the ASCII whitespace characters.\<close>

definition is_space :: "char \<Rightarrow> bool" where
  "is_space c \<longleftrightarrow>
     c \<in> set [CHR 0x09, CHR 0x0A, CHR 0x0B, CHR 0x0C, CHR 0x0D, CHR 0x1C, CHR 0x1D, CHR 0x1E,
               CHR 0x1F, CHR 0x20]"

definition strip :: "string \<Rightarrow> string" where
  "strip s = rev (dropWhile is_space (rev (dropWhile is_space s)))"

text \<open>The format \<open>:02d\<close>: decimal digits, padded with zeros to two characters.\<close>

fun dec :: "nat \<Rightarrow> string" where
  "dec n = (if n < 10 then [''0123456789'' ! n] else dec (n div 10) @ [''0123456789'' ! (n mod 10)])"

declare dec.simps [simp del]

definition format_02d :: "int \<Rightarrow> string" where
  "format_02d n =
     (if n < 0 then CHR ''-'' # dec (nat (- n))
      else replicate (2 - length (dec (nat n))) CHR ''0'' @ dec (nat n))"

text \<open>\<open>month_name_to_month\<close>: the month number dateutil reads from a month name.\<close>

definition month_name_to_month :: "env \<Rightarrow> string \<Rightarrow> error + int" where
  "month_name_to_month env month_name =
     (case parse_month env month_name of None \<Rightarrow> Inl ParserError | Some m \<Rightarrow> Inr m)"

text \<open>\<open>f"{year}-{int(month):02d}-{int(day):02d}"\<close>: \<open>int(month)\<close> is evaluated before \<open>int(day)\<close>.\<close>

definition year_month_day :: "env \<Rightarrow> string \<Rightarrow> string \<Rightarrow> string \<Rightarrow> error + string" where
  "year_month_day env year month day =
     (case py_int env month of
        None \<Rightarrow> Inl ValueError
      | Some m \<Rightarrow>
          (case py_int env day of
             None \<Rightarrow> Inl ValueError
           | Some d \<Rightarrow> Inr (year @ ''-'' @ format_02d m @ ''-'' @ format_02d d)))"

subsection \<open>The canonical frame\<close>

text \<open>
  A row of the frame an adapter hands to \<open>process_columns\<close>, by the ten columns of
  \<open>column_order\<close>. \<open>get_data\<close> turns every cell into a string, so the columns are strings;
  \<open>Transaction ID\<close> alone can be missing, when \<open>reindex\<close> has to create the column.
\<close>

record row =
  Read_Date :: string
  Post_Date :: string
  Firm_Name :: string
  User_Name :: string
  Email :: string
  City :: string
  Country :: string
  Report_Title :: string
  Platform :: string
  Transaction_ID :: "string option"

subsection \<open>process\_columns\<close>

text \<open>
  \<open>sort_values(by='Read Date', ascending=False)\<close>: pandas reverses the column, sorts it
  ascending and reverses the result. The sort is taken to be stable (numpy's default sort is
  stable on short arrays and gives no promise on long ones), so rows with the same Read Date
  keep their order.
\<close>

definition sort_values :: "row list \<Rightarrow> row list" where
  "sort_values df = rev (sort_key Read_Date (rev df))"

text \<open>
  \<open>drop_duplicates(subset='Transaction ID')\<close>: the first row of each Transaction ID stays;
  missing values count as equal to each other.
\<close>

fun drop_seen_ids :: "string option list \<Rightarrow> row list \<Rightarrow> row list" where
  "drop_seen_ids seen [] = []"
| "drop_seen_ids seen (r # rs) =
     (if Transaction_ID r \<in> set seen then drop_seen_ids seen rs
      else r # drop_seen_ids (Transaction_ID r # seen) rs)"

definition drop_duplicates_Transaction_ID :: "row list \<Rightarrow> row list" where
  "drop_duplicates_Transaction_ID df = drop_seen_ids [] df"

text \<open>The values \<open>df.replace\<close> turns into the placeholder, in every column.\<close>

definition undisclosed_values :: "string list" where
  "undisclosed_values =
     [''***'', ''N/A - Free Content'', ''Restricted'', ''nan'', ''Unattributed'', ''Embargoed'',
      ''EMBARGOED'', ''Unknown'']"

definition replace_value :: "string \<Rightarrow> string" where
  "replace_value v = (if v \<in> set undisclosed_values then SENTINEL else v)"

definition replace_row :: "row \<Rightarrow> row" where
  "replace_row r =
     \<lparr>Read_Date = replace_value (Read_Date r), Post_Date = replace_value (Post_Date r),
      Firm_Name = replace_value (Firm_Name r), User_Name = replace_value (User_Name r),
      Email = replace_value (Email r), City = replace_value (City r),
      Country = replace_value (Country r), Report_Title = replace_value (Report_Title r),
      Platform = replace_value (Platform r),
      Transaction_ID = map_option replace_value (Transaction_ID r)\<rparr>"

definition process_columns :: "row list \<Rightarrow> bool \<Rightarrow> row list" where
  "process_columns df remove_duplicates =
     (let df1 = sort_values df;
          df2 = (if remove_duplicates = True then drop_duplicates_Transaction_ID df1 else df1)
      in map replace_row df2)"

subsection \<open>map\_and\_fillna\_country and map\_and\_fillna\_city\<close>

definition custom_mapping :: "env \<Rightarrow> string \<Rightarrow> string" where
  "custom_mapping env country_code =
     (if country_code = SENTINEL then SENTINEL
      else
        (let country_name =
               (case alpha_2_name env country_code of Some n \<Rightarrow> n | None \<Rightarrow> country_code)
         in (case CUSTOM_COUNTRY_MAPPING env country_name of
               Some v \<Rightarrow> v | None \<Rightarrow> country_name)))"

definition upper_unless_sentinel :: "string \<Rightarrow> string" where
  "upper_unless_sentinel x = (if x \<noteq> SENTINEL then upper x else x)"

definition map_and_fillna_country :: "env \<Rightarrow> row list \<Rightarrow> row list" where
  "map_and_fillna_country env df =
     map (\<lambda>r. r\<lparr>Country := upper_unless_sentinel (custom_mapping env (Country r))\<rparr>) df"

definition city_mapping :: "env \<Rightarrow> string \<Rightarrow> string" where
  "city_mapping env c = (case CUSTOM_CITY_MAPPING env c of Some v \<Rightarrow> v | None \<Rightarrow> c)"

definition map_and_fillna_city :: "env \<Rightarrow> row list \<Rightarrow> row list" where
  "map_and_fillna_city env df =
     map (\<lambda>r. r\<lparr>City := upper_unless_sentinel (city_mapping env (City r))\<rparr>) df"

subsection \<open>Steps the adapters share\<close>

text \<open>
  The disclosure filter on \<open>Firm Name\<close>: the pattern has no regular-expression operator, so
  \<open>str.contains\<close> looks for it as it is written.
\<close>

definition filter_non_disclosed :: "row list \<Rightarrow> row list" where
  "filter_non_disclosed df =
     filter (\<lambda>r. \<not> contains (lower (Firm_Name r)) ''non-disclosed company name'') df"

text \<open>Applying a function that may raise to a column, top to bottom.\<close>

fun apply_column :: "('a \<Rightarrow> error + 'b) \<Rightarrow> 'a list \<Rightarrow> error + 'b list" where
  "apply_column f [] = Inr []"
| "apply_column f (x # xs) =
     (case f x of
        Inl e \<Rightarrow> Inl e
      | Inr y \<Rightarrow> (case apply_column f xs of Inl e \<Rightarrow> Inl e | Inr ys \<Rightarrow> Inr (y # ys)))"

text \<open>
  \<open>df[['Read Date', 'Post Date']].applymap(f)\<close>: the Read Date column is converted first,
  then the Post Date column.
\<close>

definition applymap_dates :: "(string \<Rightarrow> error + string) \<Rightarrow> row list \<Rightarrow> error + row list" where
  "applymap_dates f df =
     (case apply_column f (map Read_Date df) of
        Inl e \<Rightarrow> Inl e
      | Inr rds \<Rightarrow>
          (case apply_column f (map Post_Date df) of
             Inl e \<Rightarrow> Inl e
           | Inr pds \<Rightarrow>
               Inr (map (\<lambda>(r, rd, pd). r\<lparr>Read_Date := rd, Post_Date := pd\<rparr>)
                      (zip df (zip rds pds)))))"

text \<open>\<open>df['Read Date'].apply(f)\<close>: publisher 5 converts the Read Date column only.\<close>

definition apply_read_date :: "(string \<Rightarrow> error + string) \<Rightarrow> row list \<Rightarrow> error + row list" where
  "apply_read_date f df =
     (case apply_column f (map Read_Date df) of
        Inl e \<Rightarrow> Inl e
      | Inr rds \<Rightarrow> Inr (map (\<lambda>(r, rd). r\<lparr>Read_Date := rd\<rparr>) (zip df rds)))"

text \<open>The last line of every adapter, for its value of \<open>remove_duplicates\<close>.\<close>

definition process_dataframe :: "env \<Rightarrow> row list \<Rightarrow> bool \<Rightarrow> row list" where
  "process_dataframe env df remove_duplicates =
     map_and_fillna_city env (map_and_fillna_country env (process_columns df remove_duplicates))"

subsection \<open>Date converters\<close>

text \<open>
  Each converter takes a date string apart by \<open>split\<close> and tuple unpacking. Unpacking into
  two or three names raises \<open>ValueError\<close> when the list has another number of pieces; here
  it gives \<^term>\<open>None\<close> then.
\<close>

fun unpack2 :: "'a list \<Rightarrow> ('a \<times> 'a) option" where
  "unpack2 [a, b] = Some (a, b)"
| "unpack2 xs = None"

fun unpack3 :: "'a list \<Rightarrow> ('a \<times> 'a \<times> 'a) option" where
  "unpack3 [a, b, c] = Some (a, b, c)"
| "unpack3 xs = None"

definition convert_date_example_publisher_1 :: "string \<Rightarrow> error + string" where
  "convert_date_example_publisher_1 date_str =
     (case unpack2 (split '' '' date_str) of
        None \<Rightarrow> Inl ValueError
      | Some (date, _) \<Rightarrow>
          (if length date \<le> 2 then Inl IndexError
           else Inr (replace_slash
                  (if date ! 2 = CHR ''/''
                   then drop 6 date @ ''/'' @ take 2 (drop 3 date) @ ''/'' @ take 2 date
                   else date))))"

definition convert_date_example_publisher_2 :: "env \<Rightarrow> string \<Rightarrow> error + string" where
  "convert_date_example_publisher_2 env date_str =
     (case unpack3 (split '' '' date_str) of
        None \<Rightarrow> Inl ValueError
      | Some (date, _, _) \<Rightarrow>
          (case unpack3 (split ''-'' date) of
             None \<Rightarrow> Inl ValueError
           | Some (day, month_name, year) \<Rightarrow>
               (case month_name_to_month env month_name of
                  Inl e \<Rightarrow> Inl e
                | Inr month \<Rightarrow>
                    (case py_int env day of
                       None \<Rightarrow> Inl ValueError
                     | Some d \<Rightarrow> Inr (year @ ''-'' @ format_02d month @ ''-'' @ format_02d d)))))"

definition convert_date_example_publisher_3 :: "env \<Rightarrow> string \<Rightarrow> error + string" where
  "convert_date_example_publisher_3 env date_str =
     (case unpack2 (split '' '' date_str) of
        None \<Rightarrow> Inl ValueError
      | Some (date, _) \<Rightarrow>
          (case unpack3 (split ''/'' date) of
             None \<Rightarrow> Inl ValueError
           | Some (month, day, year) \<Rightarrow> year_month_day env year month day))"

definition convert_date_example_publisher_4 :: "string \<Rightarrow> error + string" where
  "convert_date_example_publisher_4 date_str = Inr (replace_slash date_str)"

definition convert_date_example_publisher_5 :: "env \<Rightarrow> string \<Rightarrow> error + string" where
  "convert_date_example_publisher_5 env date_str =
     (case unpack3 (split '' '' date_str) of
        None \<Rightarrow> Inl ValueError
      | Some (date, _, _) \<Rightarrow>
          (case unpack3 (split ''/'' date) of
             None \<Rightarrow> Inl ValueError
           | Some (month, day, year) \<Rightarrow> year_month_day env year month day))"

definition convert_date_example_publisher_6 :: "env \<Rightarrow> string \<Rightarrow> error + string" where
  "convert_date_example_publisher_6 env date_str =
     (case unpack2 (split '', '' date_str) of
        None \<Rightarrow> Inl ValueError
      | Some (month_name_day, year) \<Rightarrow>
          (case unpack2 (split '' '' month_name_day) of
             None \<Rightarrow> Inl ValueError
           | Some (month_name, day) \<Rightarrow>
               (case month_name_to_month env month_name of
                  Inl e \<Rightarrow> Inl e
                | Inr month \<Rightarrow>
                    (case py_int env (strip day) of
                       None \<Rightarrow> Inl ValueError
                     | Some d \<Rightarrow> Inr (year @ ''-'' @ format_02d month @ ''-'' @ format_02d d)))))"

definition convert_date_example_publisher_7 :: "string \<Rightarrow> error + string" where
  "convert_date_example_publisher_7 date_str =
     (case unpack3 (split '' '' date_str) of
        None \<Rightarrow> Inl ValueError
      | Some (date, _, _) \<Rightarrow> Inr date)"

definition convert_date_example_publisher_8 :: "env \<Rightarrow> string \<Rightarrow> error + string" where
  "convert_date_example_publisher_8 env date_str =
     (if length date_str = 19 then
        (case unpack2 (split '' '' date_str) of
           None \<Rightarrow> Inl ValueError
         | Some (date, _) \<Rightarrow>
             (case unpack3 (split ''-'' date) of
                None \<Rightarrow> Inl ValueError
              | Some (year, month, day) \<Rightarrow> year_month_day env year month day))
      else if length date_str = 16 then
        (case unpack2 (split '' '' date_str) of
           None \<Rightarrow> Inl ValueError
         | Some (date, _) \<Rightarrow>
             (case unpack3 (split ''/'' date) of
                None \<Rightarrow> Inl ValueError
              | Some (day, month, year) \<Rightarrow> year_month_day env year month day))
      else
        (case unpack3 (split ''/'' date_str) of
           None \<Rightarrow> Inl ValueError
         | Some (day, month, year) \<Rightarrow> year_month_day env year month day))"

subsection \<open>The adapters\<close>

text \<open>
  The input of an adapter is the frame \<open>get_data\<close> returns, every cell a string. A raw row is
  a record of the columns the adapter keeps (\<open>col_to_keep\<close>); selecting, renaming and adding
  constant columns build the canonical row. Each adapter is split at its comment
  \<open># Process DataFrame\<close>: \<open>prepare_N\<close> is what comes before it.
\<close>

record raw1 =
  p1_Transaction_Date :: string
  p1_Customer_Name :: string
  p1_User_Name :: string
  p1_Business_eMail :: string
  p1_Customer_City :: string
  p1_Customer_Country :: string
  p1_Transaction_Id :: string
  p1_Post_Date :: string
  p1_Title :: string

definition prepare_1 :: "raw1 list \<Rightarrow> error + row list" where
  "prepare_1 df =
     applymap_dates convert_date_example_publisher_1
       (filter_non_disclosed
          (map (\<lambda>x. \<lparr>Read_Date = p1_Transaction_Date x, Post_Date = p1_Post_Date x,
                      Firm_Name = p1_Customer_Name x, User_Name = p1_User_Name x,
                      Email = p1_Business_eMail x, City = p1_Customer_City x,
                      Country = p1_Customer_Country x, Report_Title = p1_Title x,
                      Platform = ''example_publisher_1'',
                      Transaction_ID = Some (p1_Transaction_Id x)\<rparr>) df))"

definition clean_example_publisher_1 :: "env \<Rightarrow> raw1 list \<Rightarrow> error + row list" where
  "clean_example_publisher_1 env df =
     (case prepare_1 df of Inl e \<Rightarrow> Inl e | Inr d \<Rightarrow> Inr (process_dataframe env d True))"

text \<open>
  Publisher 2 keeps the column \<open>Readership Event ID\<close>, but the renaming names
  \<open>Readership Event ID (FactSet)\<close>, which the frame does not have: no column is renamed to
  \<open>Transaction ID\<close>, and \<open>reindex\<close> creates it with missing values.
\<close>

record raw2 =
  p2_Date_time_read :: string
  p2_Platform :: string
  p2_Parent_Firm_name :: string
  p2_Reader_name :: string
  p2_E_mail :: string
  p2_City :: string
  p2_Country :: string
  p2_Readership_Event_ID :: string
  p2_Date_time_published :: string
  p2_Report_title :: string

definition prepare_2 :: "env \<Rightarrow> raw2 list \<Rightarrow> error + row list" where
  "prepare_2 env df =
     applymap_dates (convert_date_example_publisher_2 env)
       (filter_non_disclosed
          (map (\<lambda>x. \<lparr>Read_Date = p2_Date_time_read x, Post_Date = p2_Date_time_published x,
                      Firm_Name = p2_Parent_Firm_name x, User_Name = p2_Reader_name x,
                      Email = p2_E_mail x, City = p2_City x, Country = p2_Country x,
                      Report_Title = p2_Report_title x, Platform = p2_Platform x,
                      Transaction_ID = None\<rparr>) df))"

definition clean_example_publisher_2 :: "env \<Rightarrow> raw2 list \<Rightarrow> error + row list" where
  "clean_example_publisher_2 env df =
     (case prepare_2 env df of Inl e \<Rightarrow> Inl e | Inr d \<Rightarrow> Inr (process_dataframe env d True))"

record raw3 =
  p3_Viewed_Date :: string
  p3_Published_Date :: string
  p3_Client_Name :: string
  p3_User_Name :: string
  p3_User_Email :: string
  p3_User_City :: string
  p3_User_Country :: string
  p3_Headline :: string
  p3_Transaction_ID :: string

definition prepare_3 :: "env \<Rightarrow> raw3 list \<Rightarrow> error + row list" where
  "prepare_3 env df =
     applymap_dates (convert_date_example_publisher_3 env)
       (filter_non_disclosed
          (map (\<lambda>x. \<lparr>Read_Date = p3_Viewed_Date x, Post_Date = p3_Published_Date x,
                      Firm_Name = p3_Client_Name x, User_Name = p3_User_Name x,
                      Email = p3_User_Email x, City = p3_User_City x,
                      Country = p3_User_Country x, Report_Title = p3_Headline x,
                      Platform = ''example_publisher_3'',
                      Transaction_ID = Some (p3_Transaction_ID x)\<rparr>) df))"

definition clean_example_publisher_3 :: "env \<Rightarrow> raw3 list \<Rightarrow> error + row list" where
  "clean_example_publisher_3 env df =
     (case prepare_3 env df of Inl e \<Rightarrow> Inl e | Inr d \<Rightarrow> Inr (process_dataframe env d True))"

record raw4 =
  p4_Read_Date :: string
  p4_Firm_Name :: string
  p4_Post_Date :: string
  p4_Report_Title :: string

definition prepare_4 :: "raw4 list \<Rightarrow> error + row list" where
  "prepare_4 df =
     applymap_dates convert_date_example_publisher_4
       (filter_non_disclosed
          (map (\<lambda>x. \<lparr>Read_Date = p4_Read_Date x, Post_Date = p4_Post_Date x,
                      Firm_Name = p4_Firm_Name x, User_Name = SENTINEL, Email = SENTINEL,
                      City = SENTINEL, Country = SENTINEL, Report_Title = p4_Report_Title x,
                      Platform = ''example_publisher_4'',
                      Transaction_ID = Some SENTINEL\<rparr>) df))"

definition clean_example_publisher_4 :: "env \<Rightarrow> raw4 list \<Rightarrow> error + row list" where
  "clean_example_publisher_4 env df =
     (case prepare_4 df of Inl e \<Rightarrow> Inl e | Inr d \<Rightarrow> Inr (process_dataframe env d False))"

record raw5 =
  p5_Activity_Date :: string
  p5_Client_Name :: string
  p5_Activity_Id :: string
  p5_Document_Posted_Date :: string
  p5_Headline :: string

definition prepare_5 :: "env \<Rightarrow> raw5 list \<Rightarrow> error + row list" where
  "prepare_5 env df =
     apply_read_date (convert_date_example_publisher_5 env)
       (filter_non_disclosed
          (map (\<lambda>x. \<lparr>Read_Date = p5_Activity_Date x, Post_Date = p5_Document_Posted_Date x,
                      Firm_Name = p5_Client_Name x, User_Name = SENTINEL, Email = SENTINEL,
                      City = SENTINEL, Country = SENTINEL, Report_Title = p5_Headline x,
                      Platform = ''example_publisher_5'',
                      Transaction_ID = Some (p5_Activity_Id x)\<rparr>) df))"

definition clean_example_publisher_5 :: "env \<Rightarrow> raw5 list \<Rightarrow> error + row list" where
  "clean_example_publisher_5 env df =
     (case prepare_5 env df of Inl e \<Rightarrow> Inl e | Inr d \<Rightarrow> Inr (process_dataframe env d True))"

text \<open>
  Publisher 6 repeats each row as many times as its \<open>Platform Views*\<close> says. \<open>repeat\<close> needs
  integer counts, so the column is an integer here; a negative count raises \<open>ValueError\<close>.
\<close>

record raw6 =
  p6_Published :: string
  p6_Title :: string
  p6_Platform_Views :: int

definition repeat_rows :: "raw6 list \<Rightarrow> error + raw6 list" where
  "repeat_rows df =
     (if \<exists>x \<in> set df. p6_Platform_Views x < 0 then Inl ValueError
      else Inr (concat (map (\<lambda>x. replicate (nat (p6_Platform_Views x)) x) df)))"

definition prepare_6 :: "env \<Rightarrow> raw6 list \<Rightarrow> error + row list" where
  "prepare_6 env df =
     (case repeat_rows df of
        Inl e \<Rightarrow> Inl e
      | Inr d \<Rightarrow>
          applymap_dates (convert_date_example_publisher_6 env)
            (filter_non_disclosed
               (map (\<lambda>x. \<lparr>Read_Date = p6_Published x, Post_Date = p6_Published x,
                           Firm_Name = SENTINEL, User_Name = SENTINEL, Email = SENTINEL,
                           City = SENTINEL, Country = SENTINEL, Report_Title = p6_Title x,
                           Platform = ''example_publisher_6'',
                           Transaction_ID = Some SENTINEL\<rparr>) d)))"

definition clean_example_publisher_6 :: "env \<Rightarrow> raw6 list \<Rightarrow> error + row list" where
  "clean_example_publisher_6 env df =
     (case prepare_6 env df of Inl e \<Rightarrow> Inl e | Inr d \<Rightarrow> Inr (process_dataframe env d False))"

text \<open>
  Publisher 7. The four \<open>fillna\<close> calls fill missing cells from the Japanese columns; in a
  frame of strings no cell is missing, so they change nothing and those columns are left out.
  \<open>replace('nan', np.nan)\<close> followed by \<open>dropna()\<close> removes the rows in which a kept column
  is the string \<open>nan\<close>. The word looked for in \<open>Downloaded Report\<close> is the three katakana
  U+30C6 U+30B9 U+30C8.
\<close>

record raw7 =
  p7_First_name :: string
  p7_Last_name :: string
  p7_Email :: string
  p7_Downloaded_Report :: string
  p7_Conversion_Date :: string
  p7_Conversion_Page :: string

definition TESUTO :: string where
  "TESUTO = [CHR 0xE3, CHR 0x83, CHR 0x86, CHR 0xE3, CHR 0x82, CHR 0xB9, CHR 0xE3, CHR 0x83, CHR 0x88]"

definition select_7 :: "raw7 list \<Rightarrow> sel7 list" where
  "select_7 df =
     filter (\<lambda>x. \<not> (contains (s7_Downloaded_Report x) TESUTO \<or> s7_Downloaded_Report x = ''Q2'' \<or>
                     contains (s7_Conversion_Page x) ''non-disclosed link'' \<or>
                     contains (s7_Conversion_Page x) ''non-disclosed link''))
       (filter (\<lambda>x. s7_User_Name x \<noteq> ''nan'' \<and> s7_Email x \<noteq> ''nan'' \<and>
                     s7_Downloaded_Report x \<noteq> ''nan'' \<and> s7_Conversion_Date x \<noteq> ''nan'' \<and>
                     s7_Conversion_Page x \<noteq> ''nan'')
          (filter (\<lambda>x. suffix ''@non-disclosedcompany.com'' (s7_Email x) = False \<and>
                        s7_Email x \<noteq> ''company@hotmail.com'')
             (map (\<lambda>x. \<lparr>s7_User_Name = p7_First_name x @ '' '' @ p7_Last_name x,
                         s7_Email = p7_Email x, s7_Downloaded_Report = p7_Downloaded_Report x,
                         s7_Conversion_Date = p7_Conversion_Date x,
                         s7_Conversion_Page = p7_Conversion_Page x\<rparr>) df)))"

definition prepare_7 :: "env \<Rightarrow> raw7 list \<Rightarrow> error + row list" where
  "prepare_7 env df =
     (case pre_cleaning_example_publisher_7 env (select_7 df) of
        Inl e \<Rightarrow> Inl e
      | Inr d \<Rightarrow>
          applymap_dates convert_date_example_publisher_7
            (map (\<lambda>x. \<lparr>Read_Date = s7_Conversion_Date x, Post_Date = ''2000-12-31 00:00:00 AM'',
                        Firm_Name = SENTINEL, User_Name = s7_User_Name x, Email = s7_Email x,
                        City = SENTINEL, Country = SENTINEL,
                        Report_Title = s7_Downloaded_Report x,
                        Platform = ''example_publisher_7'',
                        Transaction_ID = Some SENTINEL\<rparr>) d))"

definition clean_example_publisher_7 :: "env \<Rightarrow> raw7 list \<Rightarrow> error + row list" where
  "clean_example_publisher_7 env df =
     (case prepare_7 env df of Inl e \<Rightarrow> Inl e | Inr d \<Rightarrow> Inr (process_dataframe env d False))"

text \<open>
  Publisher 8. The rows whose \<open>Event Type\<close> is \<open>OPEN\<close> are selected first; the durations of
  those rows are then converted to floats, which raises when one of them is not a number, and
  compared with 3000. \<open>fillna\<close> finds no missing cell in a frame of strings.
\<close>

record raw8 =
  p8_Recipient :: string
  p8_Subject :: string
  p8_Event_Type :: string
  p8_Event_ID :: string
  p8_Event_Created_Date :: string
  p8_City :: string
  p8_Country :: string
  p8_Open_duration :: string

definition opened_long_enough :: "env \<Rightarrow> raw8 list \<Rightarrow> error + raw8 list" where
  "opened_long_enough env df =
     (let opened = filter (\<lambda>x. p8_Event_Type x = ''OPEN'') df
      in case apply_column (\<lambda>x. case to_float env (p8_Open_duration x) of
                                   None \<Rightarrow> Inl ValueError | Some v \<Rightarrow> Inr v) opened of
           Inl e \<Rightarrow> Inl e
         | Inr durations \<Rightarrow>
             Inr (map fst (filter (\<lambda>(x, v). float_gt v 3000.0) (zip opened durations))))"

definition prepare_8 :: "env \<Rightarrow> raw8 list \<Rightarrow> error + row list" where
  "prepare_8 env df =
     (case opened_long_enough env df of
        Inl e \<Rightarrow> Inl e
      | Inr d \<Rightarrow>
          applymap_dates (convert_date_example_publisher_8 env)
            (map (\<lambda>x. \<lparr>Read_Date = p8_Event_Created_Date x, Post_Date = ''31/12/2000 00:00'',
                        Firm_Name = SENTINEL, User_Name = SENTINEL, Email = p8_Recipient x,
                        City = p8_City x, Country = p8_Country x, Report_Title = p8_Subject x,
                        Platform = ''example_publisher_8'',
                        Transaction_ID = Some (p8_Event_ID x)\<rparr>)
               (filter (\<lambda>x. suffix ''@non-disclosedcompany.com'' (p8_Recipient x) = False \<and>
                             p8_Recipient x \<noteq> ''user@hotmail.com'') d)))"

definition clean_example_publisher_8 :: "env \<Rightarrow> raw8 list \<Rightarrow> error + row list" where
  "clean_example_publisher_8 env df =
     (case prepare_8 env df of Inl e \<Rightarrow> Inl e | Inr d \<Rightarrow> Inr (process_dataframe env d True))"

subsection \<open>preclean\_data\<close>

text \<open>
  \<open>preclean_data\<close> picks the adapter by the publisher's name; here the batch carries the
  publisher with the frame of that publisher's columns.
\<close>

datatype batch =
  Publisher_1 "raw1 list" | Publisher_2 "raw2 list" | Publisher_3 "raw3 list"
| Publisher_4 "raw4 list" | Publisher_5 "raw5 list" | Publisher_6 "raw6 list"
| Publisher_7 "raw7 list" | Publisher_8 "raw8 list"

fun preclean_data :: "env \<Rightarrow> batch \<Rightarrow> error + row list" where
  "preclean_data env (Publisher_1 df) = clean_example_publisher_1 env df"
| "preclean_data env (Publisher_2 df) = clean_example_publisher_2 env df"
| "preclean_data env (Publisher_3 df) = clean_example_publisher_3 env df"
| "preclean_data env (Publisher_4 df) = clean_example_publisher_4 env df"
| "preclean_data env (Publisher_5 df) = clean_example_publisher_5 env df"
| "preclean_data env (Publisher_6 df) = clean_example_publisher_6 env df"
| "preclean_data env (Publisher_7 df) = clean_example_publisher_7 env df"
| "preclean_data env (Publisher_8 df) = clean_example_publisher_8 env df"

section \<open>Customer stage (cleaning\_customer.py)\<close>

text \<open>
  A cell read back from a spreadsheet is a string or missing (\<open>NaN\<close>, here \<^term>\<open>None\<close>).
\<close>

type_synonym cell = "string option"

text \<open>One entry of the client master: the columns the resolvers read.\<close>

record client =
  Client :: string
  Client_Investor_Type :: string
  Client_Investor_Style :: string
  Client_City :: string
  Client_Country :: string

text \<open>One entry of a customer's report-title master. A missing Post Date is \<^term>\<open>None\<close>.\<close>

record title_entry =
  Title :: string
  Content :: string
  Title_Post_Date :: cell

text \<open>
  A row of \<open>master_data\<close>: the ten columns of the pre-cleaned file, then the columns the
  customer stage adds. \<open>Firm Name\<close> and \<open>Report Title\<close> are strings, since the stage calls
  string methods on them.
\<close>

record mrow =
  read_date :: cell
  post_date :: cell
  firm_name :: string
  user_name :: cell
  email :: cell
  city :: cell
  country :: cell
  report_title :: string
  platform :: cell
  transaction_id :: cell
  investor_type :: cell
  investor_style :: cell
  in_client_master :: bool
  title :: cell

subsection \<open>get\_client\_info\<close>

text \<open>
  The mask compares the upper-cased \<open>Client\<close> column with the upper-cased firm name; the
  values are those of the first row the mask selects (\<open>.iloc[0]\<close>).
\<close>

definition get_client_info :: "string \<Rightarrow> client list \<Rightarrow> string \<times> string \<times> bool" where
  "get_client_info firm clients =
     (case filter (\<lambda>c. upper (Client c) = upper firm) clients of
        c # _ \<Rightarrow> (Client_Investor_Type c, Client_Investor_Style c, True)
      | [] \<Rightarrow> (SENTINEL, SENTINEL, False))"

subsection \<open>get\_city\_and\_country\<close>

text \<open>
  \<open>client_row\<close> is the part of the master whose \<open>Client\<close> equals the row's \<open>Firm Name\<close>
  (the comparison is \<open>==\<close>, with no case folding); its first row decides.
\<close>

definition get_city_and_country :: "mrow \<Rightarrow> client list \<Rightarrow> mrow" where
  "get_city_and_country row clients =
     (case filter (\<lambda>c. Client c = firm_name row) clients of
        [] \<Rightarrow> row
      | c # _ \<Rightarrow>
          (let row1 = (if Client_City c \<noteq> SENTINEL then row\<lparr>city := Some (Client_City c)\<rparr> else row)
           in if Client_Country c \<noteq> SENTINEL then row1\<lparr>country := Some (Client_Country c)\<rparr>
              else row1))"

subsection \<open>add\_shortened\_title\<close>

text \<open>The first loop, over the \<open>Title\<close> column in table order.\<close>

fun title_loop :: "string \<Rightarrow> title_entry list \<Rightarrow> string option" where
  "title_loop rt [] = None"
| "title_loop rt (e # es) =
     (if contains (lower rt) (lower (Title e)) then Some (Title e)
      else title_loop rt es)"

text \<open>The second loop, over the \<open>Content\<close> column; it returns the \<open>Title\<close> of the same row.\<close>

fun content_loop :: "string \<Rightarrow> title_entry list \<Rightarrow> string option" where
  "content_loop rt [] = None"
| "content_loop rt (e # es) =
     (if contains (lower (remove_spaces rt)) (lower (remove_spaces (Content e)))
      then Some (Title e)
      else content_loop rt es)"

definition add_shortened_title :: "string \<Rightarrow> title_entry list \<Rightarrow> string" where
  "add_shortened_title rt titles =
     (case title_loop rt titles of
        Some t \<Rightarrow> t
      | None \<Rightarrow>
          (case content_loop rt titles of
             Some t \<Rightarrow> t
           | None \<Rightarrow> rt))"

subsection \<open>get\_post\_date and the title block of main\<close>

text \<open>
  \<open>set_index('Title')['Post Date'].to_dict()\<close>: a later entry with the same \<open>Title\<close>
  overwrites an earlier one.
\<close>

definition post_date_map :: "title_entry list \<Rightarrow> string \<Rightarrow> cell option" where
  "post_date_map titles = map_of (rev (map (\<lambda>e. (Title e, Title_Post_Date e)) titles))"

text \<open>
  \<open>df['Title'].map(post_date_map)\<close>: a key that is absent (and a missing \<open>Title\<close>) gives a
  missing value.
\<close>

definition map_post_date :: "title_entry list \<Rightarrow> cell \<Rightarrow> cell" where
  "map_post_date titles t =
     (case t of None \<Rightarrow> None
      | Some k \<Rightarrow> (case post_date_map titles k of None \<Rightarrow> None | Some d \<Rightarrow> d))"

definition get_post_date :: "mrow list \<Rightarrow> title_entry list \<Rightarrow> mrow list" where
  "get_post_date df titles = map (\<lambda>r. r\<lparr>post_date := map_post_date titles (title r)\<rparr>) df"

text \<open>\<open>dropna()\<close> with no arguments: a row goes when any of its columns is missing.\<close>

definition has_na :: "mrow \<Rightarrow> bool" where
  "has_na r \<longleftrightarrow>
     read_date r = None \<or> post_date r = None \<or> user_name r = None \<or> email r = None \<or>
     city r = None \<or> country r = None \<or> platform r = None \<or> transaction_id r = None \<or>
     investor_type r = None \<or> investor_style r = None \<or> title r = None"

definition dropna :: "mrow list \<Rightarrow> mrow list" where
  "dropna df = filter (\<lambda>r. \<not> has_na r) df"

text \<open>
  Lines 297 to 302 of \<open>main\<close>: when the frame is not empty, the \<open>Title\<close> column is
  assigned, the Post Date is looked up and \<open>dropna\<close> runs.
\<close>

definition assign_title :: "title_entry list \<Rightarrow> mrow list \<Rightarrow> mrow list" where
  "assign_title titles df =
     map (\<lambda>r. r\<lparr>title := Some (add_shortened_title (report_title r) titles)\<rparr>) df"

definition title_stage :: "title_entry list \<Rightarrow> mrow list \<Rightarrow> mrow list" where
  "title_stage titles master_data =
     (if master_data \<noteq> [] then dropna (get_post_date (assign_title titles master_data) titles)
      else master_data)"

subsection \<open>save\_missing\_clients\<close>




subsection \<open>Notions used in the statements\<close>

text \<open>A missing value in a column other than \<open>Post Date\<close> and \<open>Title\<close>.\<close>

definition missing_elsewhere :: "mrow \<Rightarrow> bool" where
  "missing_elsewhere r \<longleftrightarrow>
     read_date r = None \<or> user_name r = None \<or> email r = None \<or>
     city r = None \<or> country r = None \<or> platform r = None \<or> transaction_id r = None \<or>
     investor_type r = None \<or> investor_style r = None"

text \<open>The \<open>Title\<close> that \<open>main\<close> assigns to a row.\<close>

definition resolved_title :: "title_entry list \<Rightarrow> mrow \<Rightarrow> string" where
  "resolved_title titles r = add_shortened_title (report_title r) titles"

subsection \<open>Example data\<close>

definition ex_row :: mrow where
  "ex_row = \<lparr>read_date = Some ''2024-03-07'', post_date = Some ''2024-03-01'',
     firm_name = ''Acme Corp'', user_name = Some ''J. Doe'', email = Some ''jd@acme.example'',
     city = Some ''OSAKA'', country = Some ''JAPAN'', report_title = ''(1234) Q2 Results Update'',
     platform = Some ''example_publisher_2'', transaction_id = None,
     investor_type = Some SENTINEL, investor_style = Some SENTINEL, in_client_master = False,
     title = Some ''Q2 Results''\<rparr>"

definition ex_titles :: "title_entry list" where
  "ex_titles = [\<lparr>Title = ''Q2 Results'', Content = ''second quarter'', Title_Post_Date = Some ''2024-03-01''\<rparr>,
                \<lparr>Title = ''Q2 Results Update'', Content = ''update'', Title_Post_Date = Some ''2024-03-05''\<rparr>]"

definition ex_clients :: "client list" where
  "ex_clients = [\<lparr>Client = ''ACME CORP'', Client_Investor_Type = ''Hedge Fund'',
                   Client_Investor_Style = ''Growth'', Client_City = ''TOKYO'', Client_Country = ''JAPAN''\<rparr>,
                 \<lparr>Client = ''Beta Partners'', Client_Investor_Type = ''Pension'',
                   Client_Investor_Style = ''Value'', Client_City = SENTINEL, Client_Country = ''FRANCE''\<rparr>]"



subsection \<open>Notions used in the statements about the raw-data stage\<close>

text \<open>
  What \<open>process_columns\<close> and the two mapping functions do to one row: the replacement of
  undisclosed values, then the country mapping and the city mapping on the replaced values.
\<close>

definition canon_row :: "env \<Rightarrow> row \<Rightarrow> row" where
  "canon_row env r =
     (replace_row r)\<lparr>Country := upper_unless_sentinel (custom_mapping env (replace_value (Country r))),
                     City := upper_unless_sentinel (city_mapping env (replace_value (City r)))\<rparr>"

text \<open>The frame a batch's adapter hands to \<open>process_columns\<close>.\<close>

fun prepare :: "env \<Rightarrow> batch \<Rightarrow> error + row list" where
  "prepare env (Publisher_1 df) = prepare_1 df"
| "prepare env (Publisher_2 df) = prepare_2 env df"
| "prepare env (Publisher_3 df) = prepare_3 env df"
| "prepare env (Publisher_4 df) = prepare_4 df"
| "prepare env (Publisher_5 df) = prepare_5 env df"
| "prepare env (Publisher_6 df) = prepare_6 env df"
| "prepare env (Publisher_7 df) = prepare_7 env df"
| "prepare env (Publisher_8 df) = prepare_8 env df"

text \<open>
  The value of \<open>remove_duplicates\<close> in the adapter's call of \<open>process_columns\<close>:
  \<open>False\<close> is passed by the adapters of publishers 4, 6 and 7, the others leave the default.
\<close>

fun remove_duplicates_of :: "batch \<Rightarrow> bool" where
  "remove_duplicates_of (Publisher_4 df) = False"
| "remove_duplicates_of (Publisher_6 df) = False"
| "remove_duplicates_of (Publisher_7 df) = False"
| "remove_duplicates_of b = True"




subsection \<open>Example data for the raw-data stage\<close>

text \<open>
  A small instance of the library: \<open>int\<close> and \<open>float\<close> on plain digit strings, three month
  names, two country codes, one entry in each mapping table, and a pre-cleaning of publisher 7
  that returns its frame unchanged.
\<close>

definition ex_int :: "string \<Rightarrow> int option" where
  "ex_int s =
     (if s \<noteq> [] \<and> list_all (\<lambda>c. c \<in> set ''0123456789'') s
      then Some (foldl (\<lambda>a c. 10 * a + int (length (takeWhile (\<lambda>d. d \<noteq> c) ''0123456789''))) 0 s)
      else None)"

definition ex_float :: "string \<Rightarrow> pyfloat option" where
  "ex_float s = (if s = ''nan'' then Some NotANumber else map_option (\<lambda>n. Finite (of_int n)) (ex_int s))"

definition ex_env :: env where
  "ex_env = \<lparr>py_int = ex_int,
     parse_month = map_of [(''January'', 1), (''February'', 2), (''March'', 3)],
     to_float = ex_float,
     alpha_2_name = map_of [(''JP'', ''Japan''), (''US'', ''United States'')],
     CUSTOM_COUNTRY_MAPPING = map_of [(''United States'', ''USA'')],
     CUSTOM_CITY_MAPPING = map_of [(''Chiyoda-ku'', ''Tokyo'')],
     pre_cleaning_example_publisher_7 = (\<lambda>df. Inr df)\<rparr>"

definition ex_raw8 :: raw8 where
  "ex_raw8 = \<lparr>p8_Recipient = ''reader@fund.example'', p8_Subject = ''(1234) Q2 Results'',
     p8_Event_Type = ''OPEN'', p8_Event_ID = ''E-1'', p8_Event_Created_Date = ''07/03/2024 10:15'',
     p8_City = ''Chiyoda-ku'', p8_Country = ''JP'', p8_Open_duration = ''3500''\<rparr>"

definition ex_raw8_short :: raw8 where
  "ex_raw8_short = ex_raw8\<lparr>p8_Event_ID := ''E-2'', p8_Open_duration := ''1200''\<rparr>"

definition ex_raw8_sent :: raw8 where
  "ex_raw8_sent = ex_raw8\<lparr>p8_Event_ID := ''E-3'', p8_Event_Type := ''SEND'', p8_Open_duration := ''nan''\<rparr>"

definition ex_row8 :: row where
  "ex_row8 = \<lparr>Read_Date = ''2024-03-07'', Post_Date = ''2000-12-31'', Firm_Name = SENTINEL,
     User_Name = SENTINEL, Email = ''reader@fund.example'', City = ''TOKYO'', Country = ''JAPAN'',
     Report_Title = ''(1234) Q2 Results'', Platform = ''example_publisher_8'',
     Transaction_ID = Some ''E-1''\<rparr>"

definition ex_raw4_undisclosed :: raw4 where
  "ex_raw4_undisclosed = \<lparr>p4_Read_Date = ''2024/03/07'', p4_Firm_Name = ''Non-Disclosed Company Name'',
     p4_Post_Date = ''2024/03/01'', p4_Report_Title = ''X''\<rparr>"

definition ex_raw4 :: raw4 where
  "ex_raw4 = \<lparr>p4_Read_Date = ''2024/03/05'', p4_Firm_Name = ''Acme Corp'',
     p4_Post_Date = ''2024/03/01'', p4_Report_Title = ''(1234) Q2 Results''\<rparr>"

definition ex_row4 :: row where
  "ex_row4 = \<lparr>Read_Date = ''2024-03-05'', Post_Date = ''2024-03-01'', Firm_Name = ''Acme Corp'',
     User_Name = SENTINEL, Email = SENTINEL, City = SENTINEL, Country = SENTINEL,
     Report_Title = ''(1234) Q2 Results'', Platform = ''example_publisher_4'',
     Transaction_ID = Some SENTINEL\<rparr>"


definition ex_row6 :: row where
  "ex_row6 = \<lparr>Read_Date = ''2024-03-07'', Post_Date = ''2024-03-07'', Firm_Name = SENTINEL,
     User_Name = SENTINEL, Email = SENTINEL, City = SENTINEL, Country = SENTINEL,
     Report_Title = ''(1234) Q2 Results'', Platform = ''example_publisher_6'',
     Transaction_ID = Some SENTINEL\<rparr>"


definition ex_row7 :: row where
  "ex_row7 = \<lparr>Read_Date = ''2024-03-07'', Post_Date = ''2000-12-31'', Firm_Name = SENTINEL,
     User_Name = ''Jane Doe'', Email = ''jane@fund.example'', City = SENTINEL, Country = SENTINEL,
     Report_Title = ''(1234) Q2 Results'', Platform = ''example_publisher_7'',
     Transaction_ID = Some SENTINEL\<rparr>"




section \<open>Properties of the raw-data stage\<close>

subsection \<open>Columns, sorting and the row-wise steps\<close>

lemma apply_column_list_all2:
  "apply_column f xs = Inr ys \<longleftrightarrow> list_all2 (\<lambda>x y. f x = Inr y) xs ys"
proof (induction xs arbitrary: ys)
  case Nil
  then show ?case by auto
next
  case (Cons x xs)
  show ?case
    by (cases ys) (auto simp: Cons.IH [symmetric] split: sum.splits)
qed

lemma applymap_dates_list_all2:
  assumes "applymap_dates f d = Inr d'"
  shows "list_all2 (\<lambda>r r'. \<exists>rd pd. f (Read_Date r) = Inr rd \<and> f (Post_Date r) = Inr pd \<and>
            r' = r\<lparr>Read_Date := rd, Post_Date := pd\<rparr>) d d'"
proof -
  from assms obtain rds pds where
    r: "apply_column f (map Read_Date d) = Inr rds" and
    p: "apply_column f (map Post_Date d) = Inr pds" and
    d': "d' = map (\<lambda>(r, rd, pd). r\<lparr>Read_Date := rd, Post_Date := pd\<rparr>) (zip d (zip rds pds))"
    by (auto simp: applymap_dates_def split: sum.splits)
  from r have lr: "list_all2 (\<lambda>x y. f x = Inr y) (map Read_Date d) rds"
    by (simp add: apply_column_list_all2)
  from p have lp: "list_all2 (\<lambda>x y. f x = Inr y) (map Post_Date d) pds"
    by (simp add: apply_column_list_all2)
  from lr lp have len: "length rds = length d" "length pds = length d"
    by (auto dest: list_all2_lengthD)
  show ?thesis
    unfolding d' list_all2_conv_all_nth
  proof (intro conjI allI impI)
    show "length d = length (map (\<lambda>(r, rd, pd). r\<lparr>Read_Date := rd, Post_Date := pd\<rparr>) (zip d (zip rds pds)))"
      using len by simp
  next
    fix i assume i: "i < length d"
    from lr i have "f (Read_Date (d ! i)) = Inr (rds ! i)"
      by (auto simp: list_all2_conv_all_nth)
    moreover from lp i have "f (Post_Date (d ! i)) = Inr (pds ! i)"
      by (auto simp: list_all2_conv_all_nth)
    ultimately show "\<exists>rd pd. f (Read_Date (d ! i)) = Inr rd \<and> f (Post_Date (d ! i)) = Inr pd \<and>
        map (\<lambda>(r, rd, pd). r\<lparr>Read_Date := rd, Post_Date := pd\<rparr>) (zip d (zip rds pds)) ! i =
        (d ! i)\<lparr>Read_Date := rd, Post_Date := pd\<rparr>"
      using i len by simp
  qed
qed

lemma apply_read_date_list_all2:
  assumes "apply_read_date f d = Inr d'"
  shows "list_all2 (\<lambda>r r'. \<exists>rd. f (Read_Date r) = Inr rd \<and> r' = r\<lparr>Read_Date := rd\<rparr>) d d'"
proof -
  from assms obtain rds where
    r: "apply_column f (map Read_Date d) = Inr rds" and
    d': "d' = map (\<lambda>(r, rd). r\<lparr>Read_Date := rd\<rparr>) (zip d rds)"
    by (auto simp: apply_read_date_def split: sum.splits)
  from r have lr: "list_all2 (\<lambda>x y. f x = Inr y) (map Read_Date d) rds"
    by (simp add: apply_column_list_all2)
  then have len: "length rds = length d"
    by (auto dest: list_all2_lengthD)
  show ?thesis
    unfolding d' list_all2_conv_all_nth
    using lr len by (auto simp: list_all2_conv_all_nth)
qed

lemma set_sort_values: "set (sort_values df) = set df"
  by (simp add: sort_values_def)


lemma set_drop_seen_ids: "set (drop_seen_ids seen rs) \<subseteq> set rs"
  by (induction seen rs rule: drop_seen_ids.induct) auto

lemma process_dataframe_map:
  "process_dataframe env d flag =
     map (canon_row env) (if flag then drop_duplicates_Transaction_ID (sort_values d) else sort_values d)"
  by (simp add: process_dataframe_def process_columns_def map_and_fillna_city_def
      map_and_fillna_country_def canon_row_def replace_row_def Let_def)

lemma set_process_dataframe: "set (process_dataframe env d flag) \<subseteq> canon_row env ` set d"
  using set_drop_seen_ids [of "[]" "sort_values d"]
  by (auto simp: process_dataframe_map drop_duplicates_Transaction_ID_def set_sort_values)

lemma preclean_data_prepare:
  "preclean_data env b =
     (case prepare env b of Inl e \<Rightarrow> Inl e
      | Inr d \<Rightarrow> Inr (process_dataframe env d (remove_duplicates_of b)))"
  by (cases b)
     (auto split: sum.splits simp: clean_example_publisher_1_def clean_example_publisher_2_def
        clean_example_publisher_3_def clean_example_publisher_4_def clean_example_publisher_5_def
        clean_example_publisher_6_def clean_example_publisher_7_def clean_example_publisher_8_def)

lemma list_all2_setD2:
  "list_all2 P xs ys \<Longrightarrow> y \<in> set ys \<Longrightarrow> \<exists>x \<in> set xs. P x y"
  by (induction rule: list_all2_induct) auto

lemma applymap_dates_set:
  assumes "applymap_dates f d = Inr d'" "r' \<in> set d'"
  shows "\<exists>r \<in> set d. \<exists>rd pd. r' = r\<lparr>Read_Date := rd, Post_Date := pd\<rparr>"
  using list_all2_setD2 [OF applymap_dates_list_all2 [OF assms(1)] assms(2)] by blast

lemma apply_read_date_set:
  assumes "apply_read_date f d = Inr d'" "r' \<in> set d'"
  shows "\<exists>r \<in> set d. \<exists>rd. r' = r\<lparr>Read_Date := rd\<rparr>"
  using list_all2_setD2 [OF apply_read_date_list_all2 [OF assms(1)] assms(2)] by blast

lemma canon_row_fields:
  "Firm_Name (canon_row env r) = replace_value (Firm_Name r)"
  "Email (canon_row env r) = replace_value (Email r)"
  "Report_Title (canon_row env r) = replace_value (Report_Title r)"
  "Read_Date (canon_row env r) = replace_value (Read_Date r)"
  "Post_Date (canon_row env r) = replace_value (Post_Date r)"
  "Transaction_ID (canon_row env r) = map_option replace_value (Transaction_ID r)"
  by (simp_all add: canon_row_def replace_row_def)

subsection \<open>The filter of publisher 8\<close>

lemma keep_long_opens:
  "list_all2 (\<lambda>x v. g x = Some v) xs vs \<Longrightarrow>
   map fst (filter (\<lambda>(x, v). P v) (zip xs vs)) = filter (\<lambda>x. \<exists>v. g x = Some v \<and> P v) xs"
  by (induction rule: list_all2_induct) auto

lemma opened_long_enough_filter:
  assumes "opened_long_enough env df = Inr kept"
  shows "kept = filter (\<lambda>x. p8_Event_Type x = ''OPEN'' \<and>
            (\<exists>v. to_float env (p8_Open_duration x) = Some v \<and> float_gt v 3000)) df"
proof -
  let ?opened = "filter (\<lambda>x. p8_Event_Type x = ''OPEN'') df"
  let ?f = "\<lambda>x. case to_float env (p8_Open_duration x) of None \<Rightarrow> Inl ValueError | Some v \<Rightarrow> Inr v"
  from assms obtain durations where
    a: "apply_column ?f ?opened = Inr durations" and
    k: "kept = map fst (filter (\<lambda>(x, v). float_gt v 3000) (zip ?opened durations))"
    by (auto simp: opened_long_enough_def Let_def split: sum.splits)
  from a have "list_all2 (\<lambda>x y. ?f x = Inr y) ?opened durations"
    by (simp add: apply_column_list_all2)
  then have "list_all2 (\<lambda>x v. to_float env (p8_Open_duration x) = Some v) ?opened durations"
    by (rule list_all2_mono) (auto split: option.splits)
  from keep_long_opens [OF this, of "\<lambda>v. float_gt v 3000"] k
  show ?thesis by simp
qed

text \<open>
  Claim C10. When the adapter of publisher 8 returns a frame, the rows it has kept for
  canonicalization are exactly the input rows whose Event Type is \<open>OPEN\<close> and whose open
  duration, converted to a float, is greater than 3000; every row of the output stems from one
  of them (its Email, Report Title and Transaction ID are that row's Recipient, Subject and
  Event ID after the replacement of undisclosed values). The other rows are dropped without an
  error: only the durations of \<open>OPEN\<close> rows are converted.
\<close>

theorem publisher_8_keeps_only_long_opens:
  assumes "clean_example_publisher_8 env df = Inr out"
  shows "\<exists>kept. opened_long_enough env df = Inr kept \<and>
           kept = filter (\<lambda>x. p8_Event_Type x = ''OPEN'' \<and>
                     (\<exists>v. to_float env (p8_Open_duration x) = Some v \<and> float_gt v 3000)) df \<and>
           (\<forall>r \<in> set out. \<exists>x \<in> set kept.
               Email r = replace_value (p8_Recipient x) \<and>
               Report_Title r = replace_value (p8_Subject x) \<and>
               Transaction_ID r = Some (replace_value (p8_Event_ID x)))"
proof -
  from assms obtain d where p: "prepare_8 env df = Inr d" and o: "out = process_dataframe env d True"
    by (auto simp: clean_example_publisher_8_def split: sum.splits)
  from p obtain kept where k: "opened_long_enough env df = Inr kept" and
    a: "applymap_dates (convert_date_example_publisher_8 env)
          (map (\<lambda>x. \<lparr>Read_Date = p8_Event_Created_Date x, Post_Date = ''31/12/2000 00:00'',
                        Firm_Name = SENTINEL, User_Name = SENTINEL, Email = p8_Recipient x,
                        City = p8_City x, Country = p8_Country x, Report_Title = p8_Subject x,
                        Platform = ''example_publisher_8'',
                        Transaction_ID = Some (p8_Event_ID x)\<rparr>)
               (filter (\<lambda>x. suffix ''@non-disclosedcompany.com'' (p8_Recipient x) = False \<and>
                             p8_Recipient x \<noteq> ''user@hotmail.com'') kept)) = Inr d"
    by (auto simp: prepare_8_def split: sum.splits)
  have "\<exists>x \<in> set kept. Email r = replace_value (p8_Recipient x) \<and>
               Report_Title r = replace_value (p8_Subject x) \<and>
               Transaction_ID r = Some (replace_value (p8_Event_ID x))" if "r \<in> set out" for r
  proof -
    from that o obtain r' where r': "r' \<in> set d" "r = canon_row env r'"
      using set_process_dataframe [of env d True] by auto
    from applymap_dates_set [OF a r'(1)] obtain x rd pd where
      "x \<in> set kept" "Email r' = p8_Recipient x" "Report_Title r' = p8_Subject x"
      "Transaction_ID r' = Some (p8_Event_ID x)"
      by auto
    with r'(2) show ?thesis by (auto simp: canon_row_fields)
  qed
  with k opened_long_enough_filter [OF k] show ?thesis by blast
qed

text \<open>A sent mail, a mail opened for 3.5 seconds and one opened for 1.2 seconds.\<close>

lemma ex_float_vals:
  "ex_float ''3500'' = Some (Finite 3500)" "ex_float ''1200'' = Some (Finite 1200)"
  by (simp_all add: ex_float_def ex_int_def)

lemma ex_opened:
  "opened_long_enough ex_env [ex_raw8_sent, ex_raw8, ex_raw8_short] = Inr [ex_raw8]"
  by (simp add: opened_long_enough_def ex_env_def ex_raw8_def ex_raw8_short_def ex_raw8_sent_def
      ex_float_vals)

lemma ex_int_vals:
  "ex_int ''07'' = Some 7" "ex_int ''03'' = Some 3" "ex_int ''31'' = Some 31" "ex_int ''12'' = Some 12"
  by (simp_all add: ex_int_def)

lemma format_02d_vals:
  "format_02d 7 = ''07''" "format_02d 3 = ''03''" "format_02d 31 = ''31''" "format_02d 12 = ''12''"
  by (simp_all add: format_02d_def dec.simps)

lemma ex_convert_8:
  "convert_date_example_publisher_8 ex_env ''07/03/2024 10:15'' = Inr ''2024-03-07''"
  "convert_date_example_publisher_8 ex_env ''31/12/2000 00:00'' = Inr ''2000-12-31''"
  by (simp_all add: convert_date_example_publisher_8_def split_def year_month_day_def ex_env_def
      ex_int_vals format_02d_vals)

lemma ex_prepare_8:
  "prepare_8 ex_env [ex_raw8_sent, ex_raw8, ex_raw8_short] =
     Inr [\<lparr>Read_Date = ''2024-03-07'', Post_Date = ''2000-12-31'', Firm_Name = SENTINEL,
     User_Name = SENTINEL, Email = ''reader@fund.example'', City = ''Chiyoda-ku'', Country = ''JP'',
     Report_Title = ''(1234) Q2 Results'', Platform = ''example_publisher_8'',
     Transaction_ID = Some ''E-1''\<rparr>]"
  unfolding prepare_8_def ex_opened
  by (simp add: applymap_dates_def ex_raw8_def ex_convert_8 suffix_to_prefix)

lemma sentinel_not_undisclosed: "SENTINEL \<notin> set undisclosed_values"
  by (simp add: SENTINEL_def undisclosed_values_def)

lemma ex_process_8:
  "process_dataframe ex_env [\<lparr>Read_Date = ''2024-03-07'', Post_Date = ''2000-12-31'', Firm_Name = SENTINEL,
     User_Name = SENTINEL, Email = ''reader@fund.example'', City = ''Chiyoda-ku'', Country = ''JP'',
     Report_Title = ''(1234) Q2 Results'', Platform = ''example_publisher_8'',
     Transaction_ID = Some ''E-1''\<rparr>] True = [ex_row8]"
  by (simp add: process_dataframe_map sort_values_def drop_duplicates_Transaction_ID_def
      canon_row_def replace_row_def replace_value_def sentinel_not_undisclosed
      undisclosed_values_def custom_mapping_def city_mapping_def upper_unless_sentinel_def
      ex_env_def ex_row8_def upper_def upper_char_def SENTINEL_def)

theorem publisher_8_keeps_only_long_opens_witness:
  "clean_example_publisher_8 ex_env [ex_raw8_sent, ex_raw8, ex_raw8_short] = Inr [ex_row8] \<and>
   opened_long_enough ex_env [ex_raw8_sent, ex_raw8, ex_raw8_short] = Inr [ex_raw8]"
proof -
  have e: "clean_example_publisher_8 ex_env [ex_raw8_sent, ex_raw8, ex_raw8_short] = Inr [ex_row8]"
    by (simp add: clean_example_publisher_8_def ex_prepare_8 ex_process_8)
  from publisher_8_keeps_only_long_opens [OF e]
  obtain kept where "opened_long_enough ex_env [ex_raw8_sent, ex_raw8, ex_raw8_short] = Inr kept"
    by blast
  with e show ?thesis by (simp add: ex_opened)
qed

subsection \<open>Undisclosed firms\<close>

lemma sentinel_disclosed: "\<not> contains (lower SENTINEL) ''non-disclosed company name''"
  by (simp add: SENTINEL_def lower_def lower_char_def)

lemma replace_value_not_undisclosed: "replace_value v \<notin> set undisclosed_values"
  by (simp add: replace_value_def sentinel_not_undisclosed)

lemma replace_value_disclosed:
  "\<not> contains (lower v) ''non-disclosed company name'' \<Longrightarrow>
   \<not> contains (lower (replace_value v)) ''non-disclosed company name''"
  by (simp add: replace_value_def sentinel_disclosed)

lemma applymap_dates_disclosed:
  assumes "applymap_dates f d = Inr d'"
    and "\<forall>r \<in> set d. \<not> contains (lower (Firm_Name r)) ''non-disclosed company name''"
  shows "\<forall>r \<in> set d'. \<not> contains (lower (Firm_Name r)) ''non-disclosed company name''"
proof
  fix r' assume "r' \<in> set d'"
  from applymap_dates_set [OF assms(1) this] obtain r where "r \<in> set d" "Firm_Name r' = Firm_Name r"
    by auto
  with assms(2) show "\<not> contains (lower (Firm_Name r')) ''non-disclosed company name''" by simp
qed

lemma apply_read_date_disclosed:
  assumes "apply_read_date f d = Inr d'"
    and "\<forall>r \<in> set d. \<not> contains (lower (Firm_Name r)) ''non-disclosed company name''"
  shows "\<forall>r \<in> set d'. \<not> contains (lower (Firm_Name r)) ''non-disclosed company name''"
proof
  fix r' assume "r' \<in> set d'"
  from apply_read_date_set [OF assms(1) this] obtain r where "r \<in> set d" "Firm_Name r' = Firm_Name r"
    by auto
  with assms(2) show "\<not> contains (lower (Firm_Name r')) ''non-disclosed company name''" by simp
qed

lemma filter_non_disclosed_disclosed:
  "\<forall>r \<in> set (filter_non_disclosed d). \<not> contains (lower (Firm_Name r)) ''non-disclosed company name''"
  by (simp add: filter_non_disclosed_def)

lemma applymap_dates_filtered:
  "applymap_dates f (filter_non_disclosed m) = Inr d \<Longrightarrow>
   \<forall>r \<in> set d. \<not> contains (lower (Firm_Name r)) ''non-disclosed company name''"
  by (erule applymap_dates_disclosed) (rule filter_non_disclosed_disclosed)

lemma apply_read_date_filtered:
  "apply_read_date f (filter_non_disclosed m) = Inr d \<Longrightarrow>
   \<forall>r \<in> set d. \<not> contains (lower (Firm_Name r)) ''non-disclosed company name''"
  by (erule apply_read_date_disclosed) (rule filter_non_disclosed_disclosed)

lemma prepare_disclosed:
  assumes "prepare env b = Inr d"
  shows "\<forall>r \<in> set d. \<not> contains (lower (Firm_Name r)) ''non-disclosed company name''"
proof (cases b)
  case (Publisher_1 df)
  with assms show ?thesis
    by (auto simp: prepare_1_def dest!: applymap_dates_filtered)
next
  case (Publisher_2 df)
  with assms show ?thesis
    by (auto simp: prepare_2_def dest!: applymap_dates_filtered)
next
  case (Publisher_3 df)
  with assms show ?thesis
    by (auto simp: prepare_3_def dest!: applymap_dates_filtered)
next
  case (Publisher_4 df)
  with assms show ?thesis
    by (auto simp: prepare_4_def dest!: applymap_dates_filtered)
next
  case (Publisher_5 df)
  with assms show ?thesis
    by (auto simp: prepare_5_def dest!: apply_read_date_filtered)
next
  case (Publisher_6 df)
  with assms show ?thesis
    by (auto simp: prepare_6_def split: sum.splits dest!: applymap_dates_filtered)
next
  case (Publisher_7 df)
  with assms obtain d0 :: "sel7 list" where
    "applymap_dates convert_date_example_publisher_7
            (map (\<lambda>x. \<lparr>Read_Date = s7_Conversion_Date x, Post_Date = ''2000-12-31 00:00:00 AM'',
                        Firm_Name = SENTINEL, User_Name = s7_User_Name x, Email = s7_Email x,
                        City = SENTINEL, Country = SENTINEL,
                        Report_Title = s7_Downloaded_Report x,
                        Platform = ''example_publisher_7'',
                        Transaction_ID = Some SENTINEL\<rparr>) d0) = Inr d"
    by (auto simp: prepare_7_def split: sum.splits)
  then show ?thesis
    by (rule applymap_dates_disclosed) (simp add: sentinel_disclosed)
next
  case (Publisher_8 df)
  with assms obtain d0 :: "raw8 list" where
    "applymap_dates (convert_date_example_publisher_8 env)
            (map (\<lambda>x. \<lparr>Read_Date = p8_Event_Created_Date x, Post_Date = ''31/12/2000 00:00'',
                        Firm_Name = SENTINEL, User_Name = SENTINEL, Email = p8_Recipient x,
                        City = p8_City x, Country = p8_Country x, Report_Title = p8_Subject x,
                        Platform = ''example_publisher_8'',
                        Transaction_ID = Some (p8_Event_ID x)\<rparr>) d0) = Inr d"
    by (auto simp: prepare_8_def split: sum.splits)
  then show ?thesis
    by (rule applymap_dates_disclosed) (simp add: sentinel_disclosed)
qed

text \<open>
  Claim C7. In the output of every adapter no Firm Name is one of the raw values that stand
  for an undisclosed entity (they have been replaced by the placeholder), and no Firm Name
  contains \<open>non-disclosed company name\<close> in any letter case. For publisher 4 the rows with such
  a Firm Name have no effect on the output at all: the adapter returns what it returns for the
  batch without them.
\<close>

theorem no_undisclosed_firm_in_output:
  "(preclean_data env b = Inr out \<longrightarrow>
      (\<forall>r \<in> set out. Firm_Name r \<notin> set undisclosed_values \<and>
         \<not> contains (lower (Firm_Name r)) ''non-disclosed company name'')) \<and>
   clean_example_publisher_4 env df =
     clean_example_publisher_4 env
       (filter (\<lambda>x. \<not> contains (lower (p4_Firm_Name x)) ''non-disclosed company name'') df)"
proof (intro conjI impI ballI)
  fix r assume o: "preclean_data env b = Inr out" and r: "r \<in> set out"
  from o obtain d where p: "prepare env b = Inr d"
    and out: "out = process_dataframe env d (remove_duplicates_of b)"
    by (auto simp: preclean_data_prepare split: sum.splits)
  from r out obtain r' where r': "r' \<in> set d" "r = canon_row env r'"
    using set_process_dataframe [of env d "remove_duplicates_of b"] by auto
  from prepare_disclosed [OF p] r'(1)
  have "\<not> contains (lower (Firm_Name r')) ''non-disclosed company name''" by simp
  with r'(2) show "Firm_Name r \<notin> set undisclosed_values"
    and "\<not> contains (lower (Firm_Name r)) ''non-disclosed company name''"
    by (simp_all add: canon_row_fields replace_value_not_undisclosed replace_value_disclosed)
next
  show "clean_example_publisher_4 env df =
     clean_example_publisher_4 env
       (filter (\<lambda>x. \<not> contains (lower (p4_Firm_Name x)) ''non-disclosed company name'') df)"
    by (simp add: clean_example_publisher_4_def prepare_4_def filter_non_disclosed_def
        filter_map o_def)
qed

subsection \<open>Examples for publishers 4, 6 and 7\<close>

lemma canon_eval:
  "canon_row ex_env ex_row4 = ex_row4" "canon_row ex_env ex_row6 = ex_row6"
  "canon_row ex_env ex_row7 = ex_row7"
  by (simp_all add: canon_row_def replace_row_def replace_value_def sentinel_not_undisclosed
      undisclosed_values_def custom_mapping_def city_mapping_def upper_unless_sentinel_def
      ex_row4_def ex_row6_def ex_row7_def ex_env_def SENTINEL_def)


lemma ex_prepare_4: "prepare_4 [ex_raw4_undisclosed, ex_raw4] = Inr [ex_row4]"
  by (simp add: prepare_4_def filter_non_disclosed_def ex_raw4_undisclosed_def ex_raw4_def
      applymap_dates_def convert_date_example_publisher_4_def replace_slash_def ex_row4_def
      lower_def lower_char_def)








text \<open>
  The scenario of the specification for claim C7: the row of \<open>Non-Disclosed Company Name\<close> is
  not in the output of publisher 4's adapter, the other row is.
\<close>

theorem no_undisclosed_firm_in_output_witness:
  "preclean_data ex_env (Publisher_4 [ex_raw4_undisclosed, ex_raw4]) = Inr [ex_row4] \<and>
   Firm_Name ex_row4 \<notin> set undisclosed_values \<and>
   \<not> contains (lower (Firm_Name ex_row4)) ''non-disclosed company name''"
proof -
  have e: "preclean_data ex_env (Publisher_4 [ex_raw4_undisclosed, ex_raw4]) = Inr [ex_row4]"
    by (simp add: clean_example_publisher_4_def ex_prepare_4 process_dataframe_map
        sort_values_def canon_eval)
  from no_undisclosed_firm_in_output [of ex_env "Publisher_4 [ex_raw4_undisclosed, ex_raw4]" "[ex_row4]"] e
  show ?thesis by simp
qed

subsection \<open>Deduplication\<close>










subsection \<open>A second pass of the canonicalization\<close>















subsection \<open>Date conversion\<close>





























section \<open>Properties of the customer stage\<close>

subsection \<open>Auxiliary facts\<close>







subsection \<open>Title resolution\<close>






subsection \<open>Entity resolution\<close>



text \<open>
  Claim C4. The claim asks for City and Country to be taken from the master whenever the firm
  matches case-insensitively. \<open>get_city_and_country\<close> compares with \<open>==\<close>: the firm
  \<open>Acme Corp\<close> is found by \<open>get_client_info\<close> under the master's \<open>ACME CORP\<close>, whose City is
  \<open>TOKYO\<close>, yet the row leaves \<open>get_city_and_country\<close> as it came, with City \<open>OSAKA\<close>.
\<close>

theorem get_city_and_country_case_sensitive:
  "get_client_info (firm_name ex_row) ex_clients = (''Hedge Fund'', ''Growth'', True) \<and>
   get_city_and_country ex_row ex_clients = ex_row \<and> city ex_row = Some ''OSAKA''"
  by (simp add: get_client_info_def get_city_and_country_def ex_row_def ex_clients_def
      upper_def upper_char_def)



subsection \<open>Post Date lookup and row removal\<close>

lemma has_na_after_lookup:
  "has_na (r\<lparr>title := Some t, post_date := d\<rparr>) \<longleftrightarrow> d = None \<or> missing_elsewhere r"
  by (auto simp: has_na_def missing_elsewhere_def)

lemma title_stage_aux:
  "dropna (get_post_date (assign_title titles df) titles) =
     map (\<lambda>r. r\<lparr>title := Some (resolved_title titles r),
                post_date := map_post_date titles (Some (resolved_title titles r))\<rparr>)
       (filter (\<lambda>r. map_post_date titles (Some (resolved_title titles r)) \<noteq> None \<and>
                    \<not> missing_elsewhere r) df)"
  by (induction df)
     (simp_all add: dropna_def get_post_date_def assign_title_def resolved_title_def
        has_na_after_lookup)

text \<open>
  Claim C3, amended. After Title resolution the Post Date is overwritten by the lookup of the
  resolved Title, and the rows that leave the block are, in their order, exactly the rows whose
  lookup gives a date and that have no missing value in any other column: a row is removed if
  and only if its resolved Title has no post-date entry (or the entry's date is missing) or
  another of its columns is missing. For a row with no missing value elsewhere, the lookup
  miss is the only reason for removal.
\<close>

theorem title_stage_drops_rows_with_any_missing_value:
  "title_stage titles df =
     map (\<lambda>r. r\<lparr>title := Some (resolved_title titles r),
                post_date := map_post_date titles (Some (resolved_title titles r))\<rparr>)
       (filter (\<lambda>r. map_post_date titles (Some (resolved_title titles r)) \<noteq> None \<and>
                    \<not> missing_elsewhere r) df)"
proof (cases "df = []")
  case True
  then show ?thesis by (simp add: title_stage_def)
next
  case False
  then show ?thesis by (simp add: title_stage_def title_stage_aux)
qed

text \<open>
  Claim C3 as stated fails: a row whose resolved Title has a post-date entry is removed all the
  same when its Transaction ID is missing.
\<close>

lemma ex_resolved: "resolved_title ex_titles ex_row = ''Q2 Results''"
  by (simp add: resolved_title_def ex_row_def ex_titles_def add_shortened_title_def
      lower_def lower_char_def)

theorem title_stage_drops_row_with_post_date_entry:
  "map_post_date ex_titles (Some (resolved_title ex_titles ex_row)) = Some ''2024-03-01'' \<and>
   title_stage ex_titles [ex_row] = []"
proof -
  have a: "map_post_date ex_titles (Some ''Q2 Results'') = Some ''2024-03-01''"
    by (simp add: map_post_date_def post_date_map_def ex_titles_def)
  have b: "missing_elsewhere ex_row" by (simp add: missing_elsewhere_def ex_row_def)
  have "title_stage ex_titles [ex_row] = []"
    by (simp add: title_stage_def title_stage_aux b)
  with a show ?thesis by (simp add: ex_resolved)
qed

subsection \<open>The missing-client ledger\<close>








end
